theory Spec2Isabelle
  imports Main
begin

section \<open>The Conan recipe of Boost.Scope (conan/conanfile.py)\<close>

text \<open>
  The recipe is a class \<open>ScopeConan\<close> with five hooks: \<open>validate\<close>, \<open>export_sources\<close>,
  \<open>build\<close>, \<open>package\<close> and \<open>package_id\<close>. Each hook is embedded as a function of the
  part of the recipe object it reads, returning what it raises, prints or writes.
\<close>

subsection \<open>Settings, errors and the output stream\<close>

text \<open>
  The exceptions of \<open>conan.errors\<close> the recipe imports. A hook that raises returns
  \<open>Inl\<close> of the exception; a hook that returns normally returns \<open>Inr\<close>.
\<close>

datatype error = ConanInvalidConfiguration string | ConanException string

text \<open>
  \<open>self.settings\<close>, as declared by \<open>settings = "compiler", "build_type"\<close>:
  \<^item> \<open>compiler\<close> is \<open>str(self.settings.compiler)\<close>;
  \<^item> \<open>compiler_version\<close> is \<open>self.settings.compiler.version\<close>, a dotted version
    held as the list of its numeric components (\<open>"5"\<close> is \<open>[5]\<close>, \<open>"11.2"\<close> is \<open>[11, 2]\<close>);
  \<^item> \<open>compiler_cppstd\<close> is \<open>self.settings.compiler.get_safe("cppstd")\<close>: \<open>None\<close> when
    no standard is configured, otherwise the number of the configured standard
    (\<open>98\<close>, \<open>11\<close>, \<open>14\<close>, \<open>17\<close>, ...; a \<open>gnu\<close> variant has the number of its
    standard). \<open>get_safe\<close> returns a configured value as a non-empty string, which
    Python treats as true, so the test of line 54 is \<open>compiler_cppstd s \<noteq> None\<close>;
  \<^item> \<open>build_type\<close> is \<open>self.settings.build_type\<close>.
\<close>

record settings =
  compiler :: string
  compiler_version :: "nat list"
  compiler_cppstd :: "nat option"
  build_type :: string

text \<open>
  The result of a hook that only raises or returns, paired with the lines it wrote with
  \<open>self.output.warning\<close>, in order.
\<close>

type_synonym outcome = "(error + unit) \<times> string list"

definition raises_invalid_configuration :: "error + unit \<Rightarrow> bool" where
  "raises_invalid_configuration r =
     (case r of Inl (ConanInvalidConfiguration msg) \<Rightarrow> True | _ \<Rightarrow> False)"

subsection \<open>The library routines \<open>validate\<close> calls\<close>

text \<open>
  C++ standards in the order of their publication: the setting \<open>98\<close> is C++98, every other
  setting \<open>n\<close> is the standard of the year \<open>2000 + n\<close>.
\<close>

definition cppstd_year :: "nat \<Rightarrow> nat" where
  "cppstd_year n = (if n = 98 then 1998 else 2000 + n)"

definition cppstd_at_least :: "nat \<Rightarrow> nat \<Rightarrow> bool" where
  "cppstd_at_least current required = (cppstd_year required \<le> cppstd_year current)"

text \<open>
  Modelled from the spec: \<open>check_min_cppstd\<close> is imported from the Conan library
  (\<open>conan.tools.build\<close>) and its body is not part of the repository's sources. The spec
  (4.1) gives its contract: an explicitly configured C++ standard is required to be
  \<open>\<ge> 11\<close>, failing otherwise with a configuration error. Standards are compared as
  standards, so C++98 is older than C++11.
\<close>

definition check_min_cppstd :: "settings \<Rightarrow> nat \<Rightarrow> error + unit" where
  "check_min_cppstd s cppstd =
     (case compiler_cppstd s of
        None \<Rightarrow>
          Inl (ConanInvalidConfiguration ''The compiler.cppstd is not defined for this configuration'')
      | Some current \<Rightarrow>
          if cppstd_at_least current cppstd then Inr ()
          else Inl (ConanInvalidConfiguration
                 ''Current cppstd is lower than the required C++ standard''))"

text \<open>
  Modelled from the spec: \<open>Version\<close> is imported from the Conan library
  (\<open>conan.tools.scm\<close>) and its body is not part of the repository's sources. The spec (3)
  calls a compiler version a comparable version token; \<open>Version(v) < n\<close> compares the dotted
  components of \<open>v\<close> with the single component \<open>n\<close>, first component first.
\<close>

primrec version_lt :: "nat list \<Rightarrow> nat list \<Rightarrow> bool" where
  "version_lt [] ys = (ys \<noteq> [])"
| "version_lt (x # xs) ys =
     (case ys of [] \<Rightarrow> False | y # ys' \<Rightarrow> x < y \<or> (x = y \<and> version_lt xs ys'))"

definition Version_lt :: "nat list \<Rightarrow> nat \<Rightarrow> bool" where
  "Version_lt v n = version_lt v [n]"

subsection \<open>\<open>_min_compiler_version_default_cxx11\<close> and \<open>validate\<close>\<close>

text \<open>The dictionary literal of lines 45 to 51, in the order it is written.\<close>

definition min_compiler_version_table :: "(string \<times> nat) list" where
  "min_compiler_version_table =
     [(''apple-clang'', 99),
      (''gcc'', 6),
      (''clang'', 6),
      (''Visual Studio'', 14),
      (''msvc'', 190)]"

text \<open>\<open>{...}.get(str(self.settings.compiler))\<close>: \<open>None\<close> for a name that is not a key.\<close>

definition min_compiler_version_default_cxx11 :: "settings \<Rightarrow> nat option" where
  "min_compiler_version_default_cxx11 s = map_of min_compiler_version_table (compiler s)"

text \<open>Python's \<open>not x\<close> for \<open>x\<close> an integer or \<open>None\<close>: true of \<open>None\<close> and of \<open>0\<close>.\<close>

definition py_not :: "nat option \<Rightarrow> bool" where
  "py_not x = (case x of None \<Rightarrow> True | Some n \<Rightarrow> n = 0)"

definition assuming_cxx11_warning :: string where
  "assuming_cxx11_warning = ''Assuming the compiler supports c++11 by default''"

text \<open>
  \<^verbatim>\<open>
  def validate(self):
      if self.settings.compiler.get_safe("cppstd"):
          check_min_cppstd(self, 11)
      else:
          version_cxx11_standard_json = self._min_compiler_version_default_cxx11
          if not version_cxx11_standard_json:
              self.output.warning("Assuming the compiler supports c++11 by default")
          elif Version(self.settings.compiler.version) < version_cxx11_standard_json:
              raise ConanInvalidConfiguration("Boost.Scope requires C++11")
  \<close>
\<close>

definition validate :: "settings \<Rightarrow> outcome" where
  "validate s =
     (if compiler_cppstd s \<noteq> None then (check_min_cppstd s 11, [])
      else
        (let version_cxx11_standard_json = min_compiler_version_default_cxx11 s in
         if py_not version_cxx11_standard_json then (Inr (), [assuming_cxx11_warning])
         else
           (case version_cxx11_standard_json of
              None \<Rightarrow> (Inr (), [])
            | Some n \<Rightarrow>
                if Version_lt (compiler_version s) n
                then (Inl (ConanInvalidConfiguration ''Boost.Scope requires C++11''), [])
                else (Inr (), []))))"

text \<open>
  The \<open>None\<close> branch of the \<open>case\<close> is never taken: \<open>not None\<close> is true, so line 59 has
  already run.
\<close>

subsection \<open>File trees and the library routines the packaging hooks call\<close>

text \<open>
  A folder is the map from the path of each file in it, relative to the folder and written
  with \<open>/\<close>, to the bytes of the file.
\<close>

type_synonym tree = "string \<rightharpoonup> string"

text \<open>
  Modelled from the spec: how \<open>copy\<close> matches a path against a pattern is library code
  (\<open>fnmatch\<close>), not part of the repository's sources. The spec (4.1) reads the patterns
  of the recipe as a file name or as everything below a folder. The only special character
  of those patterns is \<open>*\<close>: in \<open>fnmatch(name, pattern)\<close> a \<open>*\<close> stands for any run of
  characters (a \<open>/\<close> included) and every other character for itself.
\<close>

fun fnmatch :: "string \<Rightarrow> string \<Rightarrow> bool" where
  "fnmatch [] [] = True"
| "fnmatch (c # cs) [] = False"
| "fnmatch [] (p # ps) = (p = CHR ''*'' \<and> fnmatch [] ps)"
| "fnmatch (c # cs) (p # ps) =
     (if p = CHR ''*'' then fnmatch (c # cs) ps \<or> fnmatch cs (p # ps)
      else c = p \<and> fnmatch cs ps)"

text \<open>
  Modelled from the spec: \<open>copy\<close> is imported from the Conan library
  (\<open>conan.tools.files\<close>) and its body is not part of the repository's sources. The spec
  (4.1) describes \<open>copy(self, pattern, src, dst)\<close> as copying the files of \<open>src\<close> that the
  pattern names into \<open>dst\<close>: every file of \<open>src\<close> whose relative path matches the pattern is
  written to the same relative path of \<open>dst\<close> with the same bytes, and the other files of
  \<open>dst\<close> are left as they are.
\<close>

definition copy :: "string \<Rightarrow> tree \<Rightarrow> tree \<Rightarrow> tree" where
  "copy pattern src dst =
     (\<lambda>path. if fnmatch path pattern \<and> src path \<noteq> None then src path else dst path)"

text \<open>
  Modelled from the spec: \<open>patch\<close> is imported from the Conan library
  (\<open>conan.tools.files\<close>) and its body is not part of the repository's sources. The spec
  (4.1, 7) says it applies the named patch file to the source tree in place and fails when
  the patch does not apply. \<open>apply_diff\<close> is the patch tool: the tree a diff turns a tree
  into, or \<open>None\<close> when the diff does not apply to it. The patch file is read from the
  tree at \<open>patch_file\<close>.
\<close>

definition patch :: "(string \<Rightarrow> tree \<Rightarrow> tree option) \<Rightarrow> tree \<Rightarrow> string \<Rightarrow> error + tree" where
  "patch apply_diff base patch_file =
     (case base patch_file of
        None \<Rightarrow> Inl (ConanException ''Failed to parse patch'')
      | Some diff \<Rightarrow>
          (case apply_diff diff base of
             None \<Rightarrow> Inl (ConanException ''Failed to apply patch'')
           | Some patched \<Rightarrow> Inr patched))"

subsection \<open>\<open>export_sources\<close>, \<open>build\<close> and \<open>package\<close>\<close>

text \<open>
  \<^verbatim>\<open>
  def export_sources(self):
      src = os.path.join(self.recipe_folder, "..")
      copy(self, "LICENSE",                  src, self.export_sources_folder)
      copy(self, "include*",                 src, self.export_sources_folder)
      copy(self, "conan/1.83_compat.patch",  src, self.export_sources_folder)
  \<close>
  \<open>src\<close> is the tree of the folder above the recipe's (the root of the repository); the
  result is the export folder after the three calls.
\<close>

definition export_sources :: "tree \<Rightarrow> tree \<Rightarrow> tree" where
  "export_sources src export_sources_folder =
     copy ''conan/1.83_compat.patch'' src
       (copy ''include*'' src
         (copy ''LICENSE'' src export_sources_folder))"

text \<open>
  \<^verbatim>\<open>
  def build(self):
      patch_file = os.path.join(self.source_folder, "conan/1.83_compat.patch")
      patch(self, patch_file=patch_file)
  \<close>
  The file \<open>os.path.join(self.source_folder, p)\<close> is the file of the source folder's tree
  at \<open>p\<close>.
\<close>

definition build :: "(string \<Rightarrow> tree \<Rightarrow> tree option) \<Rightarrow> tree \<Rightarrow> error + tree" where
  "build apply_diff source_folder =
     (let patch_file = ''conan/1.83_compat.patch'' in
      patch apply_diff source_folder patch_file)"

text \<open>
  \<^verbatim>\<open>
  def package(self):
      copy(self, "include/*", self.source_folder, self.package_folder)
      copy(self, "LICENSE", self.source_folder, self.package_folder)
  \<close>
\<close>

definition package :: "tree \<Rightarrow> tree \<Rightarrow> tree" where
  "package source_folder package_folder =
     copy ''LICENSE'' source_folder
       (copy ''include/*'' source_folder package_folder)"

subsection \<open>\<open>package_id\<close>\<close>

text \<open>
  \<open>self.info\<close>, the record the package identity is computed from: the values of the
  settings and options of the build and the requirements it was resolved against.
\<close>

record package_info =
  info_settings :: "settings option"
  info_options :: "(string \<times> string) list"
  info_requires :: "string list"

text \<open>
  Modelled from the spec: the orchestrator fills \<open>self.info\<close> before it calls
  \<open>package_id\<close>; this is Conan's code, not the repository's. The spec (4.1, 6) speaks of
  build-configuration-derived identity fields: the values of the declared settings
  (\<open>settings = "compiler", "build_type"\<close>) and the declared requirement
  (\<open>requires = "boost/[>=1.83.0]"\<close>). The recipe declares no options.
\<close>

definition initial_info :: "settings \<Rightarrow> package_info" where
  "initial_info s =
     \<lparr>info_settings = Some s,
      info_options = [],
      info_requires = [''boost/[>=1.83.0]'']\<rparr>"

text \<open>
  Modelled from the spec: \<open>self.info.clear()\<close> is a method of the Conan library and its
  body is not part of the repository's sources. The spec (4.1) says it clears all
  build-configuration-derived identity fields.
\<close>

definition info_clear :: "package_info \<Rightarrow> package_info" where
  "info_clear i = i\<lparr>info_settings := None, info_options := [], info_requires := []\<rparr>"

text \<open>
  \<^verbatim>\<open>
  def package_id(self):
      self.info.clear()
  \<close>
\<close>

definition package_id :: "package_info \<Rightarrow> package_info" where
  "package_id info = info_clear info"

section \<open>Properties of \<open>validate\<close>\<close>

lemma table_entry_positive:
  "map_of min_compiler_version_table name = Some n \<Longrightarrow> 0 < n"
  by (auto simp: min_compiler_version_table_def split: if_splits)

lemma table_lookup_None:
  "name \<notin> fst ` set min_compiler_version_table \<Longrightarrow>
   map_of min_compiler_version_table name = None"
  by (simp add: map_of_eq_None_iff)

lemma cppstd_at_least_11: "cppstd_at_least c 11 \<longleftrightarrow> 11 \<le> c \<and> c \<noteq> 98"
  by (auto simp: cppstd_at_least_def cppstd_year_def)

lemma validate_cppstd:
  "compiler_cppstd s = Some c \<Longrightarrow> validate s = (check_min_cppstd s 11, [])"
  by (simp add: validate_def)

lemma validate_table:
  assumes "compiler_cppstd s = None"
    and "min_compiler_version_default_cxx11 s = Some n"
  shows "validate s =
           (if Version_lt (compiler_version s) n
            then (Inl (ConanInvalidConfiguration ''Boost.Scope requires C++11''), [])
            else (Inr (), []))"
proof -
  have "0 < n"
    using assms(2) table_entry_positive
    by (simp add: min_compiler_version_default_cxx11_def)
  then show ?thesis
    using assms by (simp add: validate_def py_not_def)
qed

lemma validate_no_entry:
  assumes "compiler_cppstd s = None"
    and "min_compiler_version_default_cxx11 s = None"
  shows "validate s = (Inr (), [assuming_cxx11_warning])"
  using assms by (simp add: validate_def py_not_def)

text \<open>
  C1, as the claim states it: for a compiler of the table, \<open>validate\<close> raises if and only if
  the version is below the table's entry and no standard is configured. It fails for gcc 7
  with \<open>compiler.cppstd=98\<close>: gcc is in the table with entry 6, the version is not below 6
  and a standard is configured, yet \<open>validate\<close> raises \<open>ConanInvalidConfiguration\<close>, because
  the configured standard is older than C++11.
\<close>

theorem validate_fails_iff_counterexample:
  "min_compiler_version_default_cxx11
     \<lparr>compiler = ''gcc'', compiler_version = [7], compiler_cppstd = Some 98,
      build_type = ''Release''\<rparr> = Some 6
   \<and> raises_invalid_configuration
       (fst (validate
         \<lparr>compiler = ''gcc'', compiler_version = [7], compiler_cppstd = Some 98,
          build_type = ''Release''\<rparr>))
   \<and> \<not> (Version_lt [7] 6 \<and> (Some 98 :: nat option) = None)"
  by (simp add: validate_def check_min_cppstd_def cppstd_at_least_def cppstd_year_def
      raises_invalid_configuration_def min_compiler_version_default_cxx11_def
      min_compiler_version_table_def)

text \<open>
  C1, amended: for every compiler of the Minimum-Standard Table, with entry \<open>n\<close>,
  \<open>validate\<close> raises \<open>ConanInvalidConfiguration\<close> if and only if either no C++ standard is
  configured and the compiler version is strictly less than \<open>n\<close>, or a C++ standard is
  configured and it is older than C++11. It fails in no other way.
\<close>

theorem validate_fails_iff:
  assumes "min_compiler_version_default_cxx11 s = Some n"
  shows "(raises_invalid_configuration (fst (validate s)) \<longleftrightarrow>
            (compiler_cppstd s = None \<and> Version_lt (compiler_version s) n) \<or>
            (\<exists>c. compiler_cppstd s = Some c \<and> \<not> cppstd_at_least c 11))
         \<and> isl (fst (validate s)) = raises_invalid_configuration (fst (validate s))"
proof (cases "compiler_cppstd s")
  case None
  then show ?thesis
    using validate_table [OF None assms]
    by (simp add: raises_invalid_configuration_def)
next
  case (Some c)
  then show ?thesis
    using validate_cppstd [OF Some]
    by (simp add: check_min_cppstd_def raises_invalid_configuration_def)
qed

theorem validate_fails_iff_witness:
  "min_compiler_version_default_cxx11
     \<lparr>compiler = ''gcc'', compiler_version = [5], compiler_cppstd = None,
      build_type = ''Release''\<rparr> = Some 6
   \<and> Version_lt [5] 6
   \<and> raises_invalid_configuration
       (fst (validate
         \<lparr>compiler = ''gcc'', compiler_version = [5], compiler_cppstd = None,
          build_type = ''Release''\<rparr>))"
proof -
  let ?s = "\<lparr>compiler = ''gcc'', compiler_version = [5], compiler_cppstd = None,
             build_type = ''Release''\<rparr>"
  have entry: "min_compiler_version_default_cxx11 ?s = Some 6"
    by (simp add: min_compiler_version_default_cxx11_def min_compiler_version_table_def)
  have lt: "Version_lt [5] 6"
    by (simp add: Version_lt_def)
  from validate_fails_iff [OF entry] lt
  have "raises_invalid_configuration (fst (validate ?s))"
    by simp
  with entry lt show ?thesis by simp
qed

text \<open>
  C2: when a C++ standard is configured, \<open>validate\<close> returns normally if the standard is
  C++11 or newer and raises \<open>ConanInvalidConfiguration\<close> if it is older than C++11,
  whatever the compiler and its version are; no warning is written either way. Among the
  settings, the standards that are C++11 or newer are those numbered at least 11 other
  than 98 (lemma \<open>cppstd_at_least_11\<close>).
\<close>

theorem validate_explicit_cppstd:
  assumes "compiler_cppstd s = Some c"
  shows "(cppstd_at_least c 11 \<longrightarrow>
            validate (s\<lparr>compiler := name, compiler_version := v\<rparr>) = (Inr (), []))
         \<and> (\<not> cppstd_at_least c 11 \<longrightarrow>
            raises_invalid_configuration
              (fst (validate (s\<lparr>compiler := name, compiler_version := v\<rparr>)))
            \<and> snd (validate (s\<lparr>compiler := name, compiler_version := v\<rparr>)) = [])"
  using assms
  by (simp add: validate_def check_min_cppstd_def raises_invalid_configuration_def)

theorem validate_explicit_cppstd_witness:
  "validate \<lparr>compiler = ''gcc'', compiler_version = [4, 8], compiler_cppstd = Some 17,
             build_type = ''Debug''\<rparr> = (Inr (), [])
   \<and> raises_invalid_configuration
       (fst (validate \<lparr>compiler = ''clang'', compiler_version = [15], compiler_cppstd = Some 98,
                       build_type = ''Debug''\<rparr>))"
proof -
  have a: "cppstd_at_least 17 11" and b: "\<not> cppstd_at_least 98 11"
    by (simp_all add: cppstd_at_least_11)
  have "compiler_cppstd \<lparr>compiler = ''sun-cc'', compiler_version = [], compiler_cppstd = Some 17,
          build_type = ''Debug''\<rparr> = Some 17"
    by simp
  from validate_explicit_cppstd [OF this, where name = "''gcc''" and v = "[4, 8]"] a
  have ok: "validate \<lparr>compiler = ''gcc'', compiler_version = [4, 8], compiler_cppstd = Some 17,
              build_type = ''Debug''\<rparr> = (Inr (), [])"
    by simp
  have "compiler_cppstd \<lparr>compiler = ''sun-cc'', compiler_version = [], compiler_cppstd = Some 98,
          build_type = ''Debug''\<rparr> = Some 98"
    by simp
  from validate_explicit_cppstd [OF this, where name = "''clang''" and v = "[15]"] b
  have "raises_invalid_configuration
          (fst (validate \<lparr>compiler = ''clang'', compiler_version = [15],
                          compiler_cppstd = Some 98, build_type = ''Debug''\<rparr>))"
    by simp
  with ok show ?thesis by simp
qed

text \<open>
  C3: for a compiler whose name is not a key of the Minimum-Standard Table, with no C++
  standard configured, \<open>validate\<close> returns normally for every version \<open>v\<close>, and what it
  writes is the one warning of line 59.
\<close>

theorem validate_unknown_compiler:
  assumes "compiler s \<notin> fst ` set min_compiler_version_table"
    and "compiler_cppstd s = None"
  shows "validate (s\<lparr>compiler_version := v\<rparr>) = (Inr (), [assuming_cxx11_warning])"
proof -
  have "min_compiler_version_default_cxx11 (s\<lparr>compiler_version := v\<rparr>) = None"
    using assms(1) table_lookup_None
    by (simp add: min_compiler_version_default_cxx11_def)
  moreover have "compiler_cppstd (s\<lparr>compiler_version := v\<rparr>) = None"
    using assms(2) by simp
  ultimately show ?thesis
    by (rule validate_no_entry [rotated])
qed

theorem validate_unknown_compiler_witness:
  "''intel-cc'' \<notin> fst ` set min_compiler_version_table
   \<and> validate \<lparr>compiler = ''intel-cc'', compiler_version = [2021, 3], compiler_cppstd = None,
               build_type = ''Release''\<rparr> = (Inr (), [assuming_cxx11_warning])"
proof -
  let ?s = "\<lparr>compiler = ''intel-cc'', compiler_version = [], compiler_cppstd = None,
             build_type = ''Release''\<rparr>"
  have absent: "compiler ?s \<notin> fst ` set min_compiler_version_table"
    by (simp add: min_compiler_version_table_def)
  have none: "compiler_cppstd ?s = None"
    by simp
  from validate_unknown_compiler [OF absent none, of "[2021, 3]"] absent
  show ?thesis by simp
qed

text \<open>
  C8: with no C++ standard configured, \<open>validate\<close> raises for gcc 5 (the entry of gcc is 6),
  returns normally and silently for gcc 7, and returns normally with the warning for
  \<open>unknown-compiler\<close> 1. The build type \<open>b\<close> plays no part.
\<close>

theorem validate_examples:
  "validate \<lparr>compiler = ''gcc'', compiler_version = [5], compiler_cppstd = None,
             build_type = b\<rparr>
     = (Inl (ConanInvalidConfiguration ''Boost.Scope requires C++11''), [])
   \<and> validate \<lparr>compiler = ''gcc'', compiler_version = [7], compiler_cppstd = None,
               build_type = b\<rparr> = (Inr (), [])
   \<and> validate \<lparr>compiler = ''unknown-compiler'', compiler_version = [1],
               compiler_cppstd = None, build_type = b\<rparr>
     = (Inr (), [''Assuming the compiler supports c++11 by default''])"
  by (simp add: validate_def py_not_def Version_lt_def assuming_cxx11_warning_def
      min_compiler_version_default_cxx11_def min_compiler_version_table_def)

text \<open>
  C9: when a C++ standard is configured, the outcome of \<open>validate\<close> is the outcome of
  \<open>check_min_cppstd(self, 11)\<close> and nothing is written; it is the same for every compiler
  name and every compiler version, so neither the table nor the version decides anything,
  and the warning of line 59 is not among the lines written.
\<close>

theorem validate_cppstd_shadows_table:
  assumes "compiler_cppstd s \<noteq> None"
  shows "validate s = (check_min_cppstd s 11, [])
         \<and> validate (s\<lparr>compiler := name, compiler_version := v\<rparr>) = validate s
         \<and> assuming_cxx11_warning \<notin> set (snd (validate s))"
  using assms by (auto simp: validate_def check_min_cppstd_def)

theorem validate_cppstd_shadows_table_witness:
  "validate \<lparr>compiler = ''gcc'', compiler_version = [5], compiler_cppstd = Some 14,
             build_type = ''Release''\<rparr> = (Inr (), [])
   \<and> validate \<lparr>compiler = ''unknown-compiler'', compiler_version = [1],
               compiler_cppstd = Some 14, build_type = ''Release''\<rparr> = (Inr (), [])"
proof -
  let ?s = "\<lparr>compiler = ''gcc'', compiler_version = [5], compiler_cppstd = Some 14,
             build_type = ''Release''\<rparr>"
  have set: "compiler_cppstd ?s \<noteq> None"
    by simp
  have ok: "check_min_cppstd ?s 11 = Inr ()"
    by (simp add: check_min_cppstd_def cppstd_at_least_11)
  from validate_cppstd_shadows_table [OF set, where name = "''unknown-compiler''" and v = "[1]"] ok
  show ?thesis by simp
qed

section \<open>Properties of the packaging hooks\<close>

subsection \<open>What the patterns of the recipe match\<close>

lemma fnmatch_star: "fnmatch name ''*''"
  by (induction name) simp_all

lemma fnmatch_literal:
  "CHR ''*'' \<notin> set pattern \<Longrightarrow> fnmatch name pattern \<longleftrightarrow> name = pattern"
  by (induction name pattern rule: fnmatch.induct) auto

lemma fnmatch_prefix_star:
  "CHR ''*'' \<notin> set lit \<Longrightarrow> fnmatch name (lit @ ''*'') \<longleftrightarrow> (\<exists>rest. name = lit @ rest)"
proof (induction lit arbitrary: name)
  case Nil
  show ?case using fnmatch_star by simp
next
  case (Cons a lit)
  then have star: "a \<noteq> CHR ''*''" and rest: "CHR ''*'' \<notin> set lit"
    by auto
  show ?case
  proof (cases name)
    case Nil
    with star show ?thesis by simp
  next
    case (Cons c cs)
    with star Cons.IH [OF rest, of cs] show ?thesis by auto
  qed
qed

lemma fnmatch_LICENSE: "fnmatch path ''LICENSE'' \<longleftrightarrow> path = ''LICENSE''"
  by (rule fnmatch_literal) simp

lemma fnmatch_patch_file:
  "fnmatch path ''conan/1.83_compat.patch'' \<longleftrightarrow> path = ''conan/1.83_compat.patch''"
  by (rule fnmatch_literal) simp

lemma fnmatch_include_star:
  "fnmatch path ''include*'' \<longleftrightarrow> (\<exists>rest. path = ''include'' @ rest)"
  using fnmatch_prefix_star [of "''include''" path] by simp

lemma fnmatch_include_slash_star:
  "fnmatch path ''include/*'' \<longleftrightarrow> (\<exists>rest. path = ''include/'' @ rest)"
  using fnmatch_prefix_star [of "''include/''" path] by simp

lemma under_include_star:
  "path = ''include/'' @ rest \<Longrightarrow> \<exists>rest'. path = ''include'' @ rest'"
  by simp

subsection \<open>The folders the hooks leave\<close>

lemma export_sources_apply:
  "export_sources src dst path =
     (if (path = ''conan/1.83_compat.patch'' \<or> (\<exists>rest. path = ''include'' @ rest)
          \<or> path = ''LICENSE'')
         \<and> src path \<noteq> None
      then src path else dst path)"
  unfolding export_sources_def copy_def fnmatch_LICENSE fnmatch_patch_file
    fnmatch_include_star
  by auto

lemma package_apply:
  "package src dst path =
     (if (path = ''LICENSE'' \<or> (\<exists>rest. path = ''include/'' @ rest)) \<and> src path \<noteq> None
      then src path else dst path)"
  unfolding package_def copy_def fnmatch_LICENSE fnmatch_include_slash_star
  by auto

lemma package_dom_empty:
  "dom (package src Map.empty) =
     {path \<in> dom src. path = ''LICENSE'' \<or> (\<exists>rest. path = ''include/'' @ rest)}"
  unfolding dom_def package_apply by auto

text \<open>
  C5: the license file and every file under \<open>include/\<close> of the source root is, after
  \<open>export_sources\<close> and then \<open>package\<close> on the exported tree, in the package folder at the
  same path with the same bytes, whatever the export folder and the package folder held
  before.
\<close>

theorem export_then_package_reproduces:
  assumes "root path = Some bytes"
    and "path = ''LICENSE'' \<or> path = ''include/'' @ rest"
  shows "package (export_sources root export_folder) package_folder path = Some bytes"
proof -
  from assms(2) under_include_star
  have "path = ''conan/1.83_compat.patch'' \<or> (\<exists>rest'. path = ''include'' @ rest')
        \<or> path = ''LICENSE''"
    by blast
  then have staged: "export_sources root export_folder path = Some bytes"
    using assms(1) by (simp only: export_sources_apply simp_thms if_True option.simps)
  from assms(2) have "path = ''LICENSE'' \<or> (\<exists>rest'. path = ''include/'' @ rest')"
    by blast
  then show ?thesis
    using staged by (simp only: package_apply simp_thms if_True option.simps)
qed

theorem export_then_package_reproduces_witness:
  "package
     (export_sources
        [''LICENSE'' \<mapsto> ''Boost Software License'',
         ''include/boost/scope/defer.hpp'' \<mapsto> ''#pragma once'',
         ''conan/1.83_compat.patch'' \<mapsto> ''--- a/include'',
         ''README.md'' \<mapsto> ''Boost.Scope'']
        Map.empty)
     [''include/boost/scope/defer.hpp'' \<mapsto> ''stale'']
     ''include/boost/scope/defer.hpp'' = Some ''#pragma once''"
proof -
  let ?root = "[''LICENSE'' \<mapsto> ''Boost Software License'',
         ''include/boost/scope/defer.hpp'' \<mapsto> ''#pragma once'',
         ''conan/1.83_compat.patch'' \<mapsto> ''--- a/include'',
         ''README.md'' \<mapsto> ''Boost.Scope'']"
  have present: "?root ''include/boost/scope/defer.hpp'' = Some ''#pragma once''"
    by simp
  have under: "''include/boost/scope/defer.hpp'' = ''LICENSE''
      \<or> ''include/boost/scope/defer.hpp'' = ''include/'' @ ''boost/scope/defer.hpp''"
    by simp
  show ?thesis
    by (rule export_then_package_reproduces [where root = ?root, OF present under])
qed

text \<open>
  C7: \<open>package_id\<close> leaves every identity field empty, whatever \<open>self.info\<close> held; so the
  identity records of two builds, with any two settings (compilers, versions, standards,
  build types), are equal.
\<close>

theorem package_id_independent:
  "package_id info = \<lparr>info_settings = None, info_options = [], info_requires = []\<rparr>
   \<and> package_id (initial_info s1) = package_id (initial_info s2)"
  by (simp add: package_id_def info_clear_def)

text \<open>
  C10, as the claim states it: after \<open>export_sources\<close> has returned, the patch file
  \<open>build\<close> opens is in the staged tree. It fails for a source root that holds the license
  file and a header but no \<open>conan/1.83_compat.patch\<close>: line 67 does not check that the
  file exists, \<open>export_sources\<close> returns with the staged tree holding nothing at that path,
  and \<open>build\<close> on that tree raises before any patch is applied (here with a patch tool
  that applies every diff).
\<close>

theorem patch_exported_counterexample:
  "export_sources
     [''LICENSE'' \<mapsto> ''Boost Software License'',
      ''include/boost/scope/defer.hpp'' \<mapsto> ''#pragma once'']
     Map.empty ''conan/1.83_compat.patch'' = None
   \<and> build (\<lambda>diff tree. Some tree)
       (export_sources
          [''LICENSE'' \<mapsto> ''Boost Software License'',
           ''include/boost/scope/defer.hpp'' \<mapsto> ''#pragma once'']
          Map.empty)
     = Inl (ConanException ''Failed to parse patch'')"
proof -
  let ?root = "[''LICENSE'' \<mapsto> ''Boost Software License'',
                ''include/boost/scope/defer.hpp'' \<mapsto> ''#pragma once'']"
  have absent: "export_sources ?root Map.empty ''conan/1.83_compat.patch'' = None"
    by (simp add: export_sources_apply)
  then have "build (\<lambda>diff tree. Some tree) (export_sources ?root Map.empty)
      = Inl (ConanException ''Failed to parse patch'')"
    by (simp add: build_def patch_def)
  with absent show ?thesis by simp
qed

text \<open>
  C10, amended: the file \<open>build\<close> opens, \<open>conan/1.83_compat.patch\<close> in the source folder,
  is one \<open>export_sources\<close> stages: when the source root has it, the exported tree has it at
  that path with the same bytes, and \<open>build\<close> on the exported tree gets as far as applying
  it. The package folder \<open>package\<close> fills from any source folder holds the license file and
  the files under \<open>include/\<close> of that folder and nothing else; the patch file is not in it.
\<close>

theorem patch_exported_not_packaged:
  assumes "root ''conan/1.83_compat.patch'' = Some diff"
  shows "export_sources root export_folder ''conan/1.83_compat.patch'' = Some diff
         \<and> build apply_diff (export_sources root export_folder) =
             (case apply_diff diff (export_sources root export_folder) of
                None \<Rightarrow> Inl (ConanException ''Failed to apply patch'')
              | Some patched \<Rightarrow> Inr patched)
         \<and> dom (package source_folder Map.empty) =
             {path \<in> dom source_folder.
              path = ''LICENSE'' \<or> (\<exists>rest. path = ''include/'' @ rest)}
         \<and> ''conan/1.83_compat.patch'' \<notin> dom (package source_folder Map.empty)"
proof -
  have staged: "export_sources root export_folder ''conan/1.83_compat.patch'' = Some diff"
    using assms by (simp add: export_sources_apply)
  then have "build apply_diff (export_sources root export_folder) =
      (case apply_diff diff (export_sources root export_folder) of
         None \<Rightarrow> Inl (ConanException ''Failed to apply patch'')
       | Some patched \<Rightarrow> Inr patched)"
    by (simp add: build_def patch_def)
  moreover have "''conan/1.83_compat.patch'' \<notin> dom (package source_folder Map.empty)"
    by (simp add: package_dom_empty)
  ultimately show ?thesis
    using staged package_dom_empty by simp
qed

theorem patch_exported_not_packaged_witness:
  "export_sources
     [''LICENSE'' \<mapsto> ''Boost Software License'',
      ''include/boost/scope/defer.hpp'' \<mapsto> ''#pragma once'',
      ''conan/1.83_compat.patch'' \<mapsto> ''--- a/include'']
     Map.empty ''conan/1.83_compat.patch'' = Some ''--- a/include''
   \<and> ''conan/1.83_compat.patch'' \<notin>
       dom (package
         [''LICENSE'' \<mapsto> ''Boost Software License'',
          ''include/boost/scope/defer.hpp'' \<mapsto> ''#pragma once'',
          ''conan/1.83_compat.patch'' \<mapsto> ''--- a/include'']
         Map.empty)"
proof -
  let ?root = "[''LICENSE'' \<mapsto> ''Boost Software License'',
                ''include/boost/scope/defer.hpp'' \<mapsto> ''#pragma once'',
                ''conan/1.83_compat.patch'' \<mapsto> ''--- a/include'']"
  have present: "?root ''conan/1.83_compat.patch'' = Some ''--- a/include''"
    by simp
  from patch_exported_not_packaged [where root = ?root and diff = "''--- a/include''"
      and export_folder = Map.empty and source_folder = ?root, OF present]
  show ?thesis by simp
qed

end
